theory Spec2Isabelle
  imports Main
begin

section \<open>pygame.scrap: the clipboard module of \<^verbatim>\<open>src_c/scrap.c\<close>\<close>

text \<open>
  The module keeps four file-level variables and exposes eleven host-callable
  functions. Everything it does besides updating those variables is a call into the
  windowing library, the per-platform clipboard adapter or the interpreter. The model
  below passes the module variables explicitly as a record, passes the state of the
  outside world as an abstract value of type \<open>'p\<close>, and takes every outside function
  as a field of a record \<open>'p platform\<close>. A theorem about an arbitrary \<open>'p platform\<close>
  therefore holds for every adapter (SDL2 or Windows) and every host policy.
\<close>

subsection \<open>Data\<close>

text \<open>C strings and byte buffers (\<^verbatim>\<open>char *\<close>) are lists of 8-bit characters.\<close>

type_synonym bytes = "char list"

text \<open>
  The two cache dictionaries map a type tag to the bytes object stored for it. A Python
  dictionary keeps insertion order, which \<^verbatim>\<open>PyDict_Keys\<close> exposes, so it is an
  association list. A \<^verbatim>\<open>NULL\<close> pointer is \<open>None\<close>.
\<close>

type_synonym pydict = "(string \<times> bytes) list"

text \<open>
  \<^verbatim>\<open>static int _scrapinitialized = 0; static ScrapClipType _currentmode;\<close>
  \<^verbatim>\<open>static PyObject *_selectiondata = NULL; static PyObject *_clipdata = NULL;\<close>
\<close>

record scrap_state =
  scrapinitialized :: int
  currentmode :: int
  selectiondata :: "pydict option"
  clipdata :: "pydict option"

definition initial_state :: scrap_state where
  "initial_state =
     \<lparr>scrapinitialized = 0, currentmode = 0, selectiondata = None, clipdata = None\<rparr>"

text \<open>The Python objects the functions return.\<close>

datatype pyobject =
    Py_None
  | PyBool bool
  | PyBytes bytes
  | PyUnicode string
  | PyList "string list"

text \<open>
  The exceptions the functions raise. \<open>NotInitializedError\<close> is what
  \<^verbatim>\<open>PYGAME_SCRAP_INIT_CHECK\<close> raises; \<open>Segfault\<close> stands for the dereference of a
  \<^verbatim>\<open>NULL\<close> dictionary.
\<close>

datatype error =
    NotInitializedError
  | pgExc_SDLError string
  | PyExc_DeprecationWarning string
  | PyExc_ValueError string
  | PyExc_SystemError string
  | PyExc_OverflowError
  | PyExc_UnicodeDecodeError
  | Segfault

text \<open>
  The outside world. None of these functions is defined in \<^verbatim>\<open>scrap.c\<close>; each is a
  parameter.
  \<^item> \<open>PyErr_WarnEx\<close>: the host's warning machinery, given the message (the category is
    always DeprecationWarning); \<open>-1\<close> when the warning is turned into an exception.
  \<^item> \<open>VIDEO_INIT_CHECK\<close>: the macro of \<^verbatim>\<open>pygame.h\<close>; \<open>Some e\<close> when it returns early
    raising \<open>e\<close>.
  \<^item> \<open>adapter_init\<close>: the platform part of \<^verbatim>\<open>pygame_scrap_init\<close>: whether it
    succeeded, and the platform afterwards.
  \<^item> \<open>pygame_scrap_lost\<close>, \<open>pygame_scrap_contains\<close>, \<open>pygame_scrap_get\<close>,
    \<open>pygame_scrap_put\<close>, \<open>pygame_scrap_get_types\<close>: the adapter
    (\<^verbatim>\<open>scrap_sdl2.c\<close> or \<^verbatim>\<open>scrap_win.c\<close>). \<open>pygame_scrap_get\<close> returns \<open>None\<close> for
    \<^verbatim>\<open>NULL\<close> and otherwise the buffer of \<^verbatim>\<open>count\<close> bytes; \<open>pygame_scrap_get_types\<close>
    returns \<open>None\<close> for \<^verbatim>\<open>NULL\<close> and otherwise the \<^verbatim>\<open>NULL\<close>-terminated array.
  \<^item> \<open>SDL_HasClipboardText\<close>, \<open>SDL_GetClipboardText\<close>, \<open>SDL_SetClipboardText\<close>,
    \<open>SDL_GetError\<close>: the windowing library.
  \<^item> \<open>PyUnicode_FromString\<close>: the interpreter's UTF-8 decoder; \<open>None\<close> for \<^verbatim>\<open>NULL\<close>.
  \<^item> \<open>dict_lookup_error\<close>: whether \<^verbatim>\<open>PyDict_GetItemWithError\<close> fails with an exception.
  Failure to allocate memory is not modelled: \<^verbatim>\<open>PyDict_New\<close>, \<^verbatim>\<open>PyList_New\<close>,
  \<^verbatim>\<open>PyList_Append\<close>, \<^verbatim>\<open>PyBytes_FromStringAndSize\<close> and \<^verbatim>\<open>PyDict_SetItemString\<close>
  succeed. Argument tuples have the right number and types of arguments; of
  \<^verbatim>\<open>PyArg_ParseTuple\<close> there remain the range check of format \<^verbatim>\<open>i\<close> and the
  rejection of an embedded NUL character by format \<^verbatim>\<open>s\<close>.
\<close>

record 'p platform =
  PyErr_WarnEx :: "'p \<Rightarrow> string \<Rightarrow> int"
  VIDEO_INIT_CHECK :: "'p \<Rightarrow> error option"
  adapter_init :: "'p \<Rightarrow> bool \<times> 'p"
  pygame_scrap_lost :: "'p \<Rightarrow> int"
  pygame_scrap_contains :: "'p \<Rightarrow> string \<Rightarrow> int"
  pygame_scrap_get :: "'p \<Rightarrow> string \<Rightarrow> bytes option"
  pygame_scrap_put :: "'p \<Rightarrow> string \<Rightarrow> bytes \<Rightarrow> int \<times> 'p"
  pygame_scrap_get_types :: "'p \<Rightarrow> string list option"
  SDL_HasClipboardText :: "'p \<Rightarrow> bool"
  SDL_GetClipboardText :: "'p \<Rightarrow> string"
  SDL_SetClipboardText :: "'p \<Rightarrow> string \<Rightarrow> int \<times> 'p"
  SDL_GetError :: "'p \<Rightarrow> string"
  PyUnicode_FromString :: "string \<Rightarrow> string option"
  dict_lookup_error :: "'p \<Rightarrow> bool"

text \<open>
  What a call yields: the object returned or the exception raised, the platform after
  the call and the module variables after the call.
\<close>

type_synonym 'p outcome = "(error + pyobject) \<times> 'p \<times> scrap_state"

subsection \<open>Argument conversion\<close>

text \<open>
  Format \<^verbatim>\<open>s\<close> of \<^verbatim>\<open>PyArg_ParseTuple\<close>: a string with an embedded NUL character
  cannot become a C string; the conversion raises ValueError and the function returns
  \<^verbatim>\<open>NULL\<close>. Any other string is handed over as it is. Format \<^verbatim>\<open>y#\<close> takes every
  bytes object, with its length.
\<close>

definition PyArg_ParseTuple_s :: "string \<Rightarrow> string option" where
  "PyArg_ParseTuple_s arg = (if CHR 0x00 \<in> set arg then None else Some arg)"

definition embedded_null :: error where
  "embedded_null = PyExc_ValueError ''embedded null character''"

subsection \<open>The text functions\<close>

text \<open>
  \<^verbatim>\<open>_scrap_get_text\<close>: probe, read, and raise when the read is empty although the probe
  said there is text.
\<close>

definition scrap_get_text :: "'p platform \<Rightarrow> 'p \<Rightarrow> scrap_state \<Rightarrow> 'p outcome" where
  "scrap_get_text pf p st =
     (let hasText = SDL_HasClipboardText pf p;
          text = SDL_GetClipboardText pf p
      in if text = [] \<and> hasText then (Inl (pgExc_SDLError (SDL_GetError pf p)), p, st)
         else (case PyUnicode_FromString pf text of
                 None \<Rightarrow> (Inl PyExc_UnicodeDecodeError, p, st)
               | Some returnValue \<Rightarrow> (Inr (PyUnicode returnValue), p, st)))"

text \<open>
  \<^verbatim>\<open>_scrap_put_text\<close>: the argument is converted with format \<^verbatim>\<open>s\<close>; a non-zero
  result of \<^verbatim>\<open>SDL_SetClipboardText\<close> is a failure.
\<close>

definition scrap_put_text :: "'p platform \<Rightarrow> 'p \<Rightarrow> scrap_state \<Rightarrow> string \<Rightarrow> 'p outcome" where
  "scrap_put_text pf p st arg =
     (case PyArg_ParseTuple_s arg of
        None \<Rightarrow> (Inl embedded_null, p, st)
      | Some text \<Rightarrow>
          (case SDL_SetClipboardText pf p text of
             (r, p') \<Rightarrow>
               if r \<noteq> 0 then (Inl (pgExc_SDLError (SDL_GetError pf p')), p', st)
               else (Inr Py_None, p', st)))"

text \<open>\<^verbatim>\<open>_scrap_has_text\<close>\<close>

definition scrap_has_text :: "'p platform \<Rightarrow> 'p \<Rightarrow> scrap_state \<Rightarrow> 'p outcome" where
  "scrap_has_text pf p st =
     (let hasText = SDL_HasClipboardText pf p
      in if hasText then (Inr (PyBool True), p, st) else (Inr (PyBool False), p, st))"

subsection \<open>Constants and macros of the headers\<close>

text \<open>
  Modelled from the spec: the enumeration \<^verbatim>\<open>ScrapClipType\<close> of \<^verbatim>\<open>scrap.h\<close>, which is
  not among the sources. The spec gives the encoding of \<^verbatim>\<open>set_mode\<close>'s argument as
  Clipboard = 0 and Selection = 1.
\<close>

definition SCRAP_CLIPBOARD :: int where
  "SCRAP_CLIPBOARD = 0"

definition SCRAP_SELECTION :: int where
  "SCRAP_SELECTION = 1"

text \<open>\<^verbatim>\<open>pygame_scrap_initialized\<close> returns the flag.\<close>

definition pygame_scrap_initialized :: "scrap_state \<Rightarrow> int" where
  "pygame_scrap_initialized st = scrapinitialized st"

text \<open>
  Modelled from the spec: the macro \<^verbatim>\<open>PYGAME_SCRAP_INIT_CHECK\<close> of \<^verbatim>\<open>scrap.h\<close>, which is
  not among the sources. The spec: generic operations require the module to be
  Initialized and fail with a "not initialized" condition otherwise. \<open>Some e\<close> means that
  the macro returns early raising \<open>e\<close>.
\<close>

definition PYGAME_SCRAP_INIT_CHECK :: "scrap_state \<Rightarrow> error option" where
  "PYGAME_SCRAP_INIT_CHECK st =
     (if pygame_scrap_initialized st = 0 then Some NotInitializedError else None)"

text \<open>
  Modelled from the spec: \<^verbatim>\<open>pygame_scrap_init\<close> of the adapter (\<^verbatim>\<open>scrap_sdl2.c\<close>,
  \<^verbatim>\<open>scrap_win.c\<close>), which is not among the sources. The spec: it prepares access to the
  OS clipboard, and the module goes from Uninitialized to Initialized, one way, when it
  succeeds. The platform part is the parameter \<open>adapter_init\<close>; the result is non-zero
  on success.
\<close>

definition pygame_scrap_init ::
  "'p platform \<Rightarrow> 'p \<Rightarrow> scrap_state \<Rightarrow> int \<times> 'p \<times> scrap_state" where
  "pygame_scrap_init pf p st =
     (case adapter_init pf p of
        (ok, p') \<Rightarrow> if ok then (1, p', st\<lparr>scrapinitialized := 1\<rparr>) else (0, p', st))"

text \<open>
  Format \<^verbatim>\<open>i\<close> of \<^verbatim>\<open>PyArg_ParseTuple\<close>: a Python integer that fits a C \<^verbatim>\<open>int\<close> is
  stored through the pointer; any other raises OverflowError and stores nothing.
\<close>

definition PyArg_ParseTuple_i :: "int \<Rightarrow> int option" where
  "PyArg_ParseTuple_i v = (if - (2 ^ 31) \<le> v \<and> v < 2 ^ 31 then Some v else None)"

subsection \<open>Dictionaries and lists of the interpreter\<close>

text \<open>\<^verbatim>\<open>PyDict_SetItemString\<close>: replace the value of a key in place, or append the pair.\<close>

fun PyDict_SetItemString :: "pydict \<Rightarrow> string \<Rightarrow> bytes \<Rightarrow> pydict" where
  "PyDict_SetItemString [] key item = [(key, item)]"
| "PyDict_SetItemString ((k, v) # d) key item =
     (if k = key then (key, item) # d else (k, v) # PyDict_SetItemString d key item)"

text \<open>\<^verbatim>\<open>PyDict_Keys\<close> checks its argument for \<^verbatim>\<open>NULL\<close>.\<close>

definition PyDict_Keys :: "pydict option \<Rightarrow> error + pyobject" where
  "PyDict_Keys mp =
     (case mp of
        None \<Rightarrow> Inl (PyExc_SystemError ''bad argument to internal function'')
      | Some d \<Rightarrow> Inr (PyList (map fst d)))"

text \<open>
  \<^verbatim>\<open>PyDict_GetItemWithError\<close>: \<open>Inl ()\<close> is \<^verbatim>\<open>NULL\<close> with an exception set,
  \<open>Inr None\<close> is \<^verbatim>\<open>NULL\<close> without one (the key is not there).
\<close>

definition PyDict_GetItemWithError ::
  "'p platform \<Rightarrow> 'p \<Rightarrow> pydict \<Rightarrow> string \<Rightarrow> unit + bytes option" where
  "PyDict_GetItemWithError pf p d key =
     (if dict_lookup_error pf p then Inl () else Inr (map_of d key))"

text \<open>\<^verbatim>\<open>PyUnicode_DecodeASCII\<close> with strict error handling.\<close>

definition PyUnicode_DecodeASCII :: "string \<Rightarrow> string option" where
  "PyUnicode_DecodeASCII s =
     (if list_all (\<lambda>c. (of_char c :: nat) < 128) s then Some s else None)"

subsection \<open>Initialisation\<close>

text \<open>
  \<^verbatim>\<open>_scrap_init\<close>: the dictionaries are created only when the module is not yet
  initialised; the adapter's init is called in either case.
\<close>

definition scrap_init :: "'p platform \<Rightarrow> 'p \<Rightarrow> scrap_state \<Rightarrow> 'p outcome" where
  "scrap_init pf p st =
     (case VIDEO_INIT_CHECK pf p of
        Some e \<Rightarrow> (Inl e, p, st)
      | None \<Rightarrow>
          if PyErr_WarnEx pf p ''pygame.scrap.init deprecated since 2.2.0'' = - 1
          then (Inl (PyExc_DeprecationWarning ''pygame.scrap.init deprecated since 2.2.0''), p, st)
          else
            let st1 = (if pygame_scrap_initialized st = 0
                       then st\<lparr>clipdata := Some [], selectiondata := Some []\<rparr>
                       else st)
            in (case pygame_scrap_init pf p st1 of
                  (r, p', st2) \<Rightarrow>
                    if r = 0 then (Inl (pgExc_SDLError (SDL_GetError pf p')), p', st2)
                    else (Inr Py_None, p', st2)))"

text \<open>\<^verbatim>\<open>_scrap_get_init\<close>\<close>

definition scrap_get_init :: "'p platform \<Rightarrow> 'p \<Rightarrow> scrap_state \<Rightarrow> 'p outcome" where
  "scrap_get_init pf p st =
     (if PyErr_WarnEx pf p ''pygame.scrap.get_init deprecated since 2.2.0'' = - 1
      then (Inl (PyExc_DeprecationWarning ''pygame.scrap.get_init deprecated since 2.2.0''), p, st)
      else (Inr (PyBool (pygame_scrap_initialized st \<noteq> 0)), p, st))"

subsection \<open>The generic functions\<close>

text \<open>
  The loop of \<^verbatim>\<open>_scrap_get_types\<close> over the adapter's array: each name is decoded as
  ASCII and appended to the list; a name that does not decode ends the call.
\<close>

fun get_types_loop :: "string list \<Rightarrow> string list \<Rightarrow> error + pyobject" where
  "get_types_loop [] list = Inr (PyList list)"
| "get_types_loop (type # types) list =
     (case PyUnicode_DecodeASCII type of
        None \<Rightarrow> Inl PyExc_UnicodeDecodeError
      | Some tmp \<Rightarrow> get_types_loop types (list @ [tmp]))"

text \<open>
  \<^verbatim>\<open>_scrap_get_types\<close>: the keys of the cache while the clipboard is owned, the
  adapter's types otherwise.
\<close>

definition scrap_get_types :: "'p platform \<Rightarrow> 'p \<Rightarrow> scrap_state \<Rightarrow> 'p outcome" where
  "scrap_get_types pf p st =
     (if PyErr_WarnEx pf p ''pygame.scrap.get_types deprecated since 2.2.0'' = - 1
      then (Inl (PyExc_DeprecationWarning ''pygame.scrap.get_types deprecated since 2.2.0''),
            p, st)
      else
        (case PYGAME_SCRAP_INIT_CHECK st of
           Some e \<Rightarrow> (Inl e, p, st)
         | None \<Rightarrow>
             if pygame_scrap_lost pf p = 0 then
               (if currentmode st = SCRAP_SELECTION
                then (PyDict_Keys (selectiondata st), p, st)
                else (PyDict_Keys (clipdata st), p, st))
             else
               (case pygame_scrap_get_types pf p of
                  None \<Rightarrow> (Inr (PyList []), p, st)
                | Some types \<Rightarrow> (get_types_loop types [], p, st))))"

text \<open>
  \<^verbatim>\<open>_scrap_contains\<close>: the warning, the conversion of the argument, then the adapter's
  answer.
\<close>

definition scrap_contains :: "'p platform \<Rightarrow> 'p \<Rightarrow> scrap_state \<Rightarrow> string \<Rightarrow> 'p outcome" where
  "scrap_contains pf p st arg =
     (if PyErr_WarnEx pf p ''pygame.scrap.contains deprecated since 2.2.0'' = - 1
      then (Inl (PyExc_DeprecationWarning ''pygame.scrap.contains deprecated since 2.2.0''),
            p, st)
      else
        (case PyArg_ParseTuple_s arg of
           None \<Rightarrow> (Inl embedded_null, p, st)
         | Some type \<Rightarrow>
             if pygame_scrap_contains pf p type \<noteq> 0 then (Inr (PyBool True), p, st)
             else (Inr (PyBool False), p, st)))"

definition get_warning :: string where
  "get_warning =
     ''pygame.scrap.get deprecated since 2.2.0. Consider using pygame.scrap.get_text instead.''"

text \<open>
  \<^verbatim>\<open>_scrap_get_scrap\<close>: the warning, the initialisation check, the conversion of the
  argument; then, while the clipboard is owned, the dictionary picked by the mode is
  looked up; otherwise the adapter is asked.
\<close>

definition scrap_get_scrap :: "'p platform \<Rightarrow> 'p \<Rightarrow> scrap_state \<Rightarrow> string \<Rightarrow> 'p outcome" where
  "scrap_get_scrap pf p st arg =
     (if PyErr_WarnEx pf p get_warning = - 1
      then (Inl (PyExc_DeprecationWarning get_warning), p, st)
      else
        (case PYGAME_SCRAP_INIT_CHECK st of
           Some e \<Rightarrow> (Inl e, p, st)
         | None \<Rightarrow>
             (case PyArg_ParseTuple_s arg of
                None \<Rightarrow> (Inl embedded_null, p, st)
              | Some scrap_type \<Rightarrow>
                  if pygame_scrap_lost pf p = 0 then
                    (let scrap_dict = (if currentmode st = SCRAP_SELECTION
                                       then selectiondata st else clipdata st)
                     in (case PyUnicode_FromString pf scrap_type of
                           None \<Rightarrow>
                             (Inl (PyExc_ValueError
                                     (''invalid scrap data type identifier ('' @ scrap_type
                                        @ '')'')),
                              p, st)
                         | Some key \<Rightarrow>
                             (case scrap_dict of
                                None \<Rightarrow> (Inl Segfault, p, st)
                              | Some d \<Rightarrow>
                                  (case PyDict_GetItemWithError pf p d key of
                                     Inl _ \<Rightarrow>
                                       (Inl (PyExc_SystemError
                                               (''pygame.scrap internal error (key=''
                                                  @ scrap_type @ '')'')),
                                        p, st)
                                   | Inr None \<Rightarrow> (Inr Py_None, p, st)
                                   | Inr (Some val) \<Rightarrow> (Inr (PyBytes val), p, st)))))
                  else
                    (case pygame_scrap_get pf p scrap_type of
                       None \<Rightarrow> (Inr Py_None, p, st)
                     | Some scrap \<Rightarrow> (Inr (PyBytes scrap), p, st)))))"

definition put_warning :: string where
  "put_warning =
     ''pygame.scrap.put deprecated since 2.2.0. Consider using pygame.scrap.put_text instead.''"

text \<open>
  \<^verbatim>\<open>_scrap_put_scrap\<close>: the warning, the initialisation check, the conversion of the
  arguments; then the adapter, and when it succeeds, the value is set in the dictionary
  picked by the mode.
\<close>

definition scrap_put_scrap ::
  "'p platform \<Rightarrow> 'p \<Rightarrow> scrap_state \<Rightarrow> string \<Rightarrow> bytes \<Rightarrow> 'p outcome" where
  "scrap_put_scrap pf p st arg scrap =
     (if PyErr_WarnEx pf p put_warning = - 1
      then (Inl (PyExc_DeprecationWarning put_warning), p, st)
      else
        (case PYGAME_SCRAP_INIT_CHECK st of
           Some e \<Rightarrow> (Inl e, p, st)
         | None \<Rightarrow>
             (case PyArg_ParseTuple_s arg of
                None \<Rightarrow> (Inl embedded_null, p, st)
              | Some scrap_type \<Rightarrow>
                  (case pygame_scrap_put pf p scrap_type scrap of
                     (r, p') \<Rightarrow>
                       if r = 0
                       then (Inl (pgExc_SDLError ''content could not be placed in clipboard.''),
                             p', st)
                       else if currentmode st = SCRAP_SELECTION then
                         (case selectiondata st of
                            None \<Rightarrow> (Inl Segfault, p', st)
                          | Some d \<Rightarrow>
                              (Inr Py_None, p',
                               st\<lparr>selectiondata :=
                                    Some (PyDict_SetItemString d scrap_type scrap)\<rparr>))
                       else
                         (case clipdata st of
                            None \<Rightarrow> (Inl Segfault, p', st)
                          | Some d \<Rightarrow>
                              (Inr Py_None, p',
                               st\<lparr>clipdata :=
                                    Some (PyDict_SetItemString d scrap_type scrap)\<rparr>))))))"

text \<open>\<^verbatim>\<open>_scrap_lost_scrap\<close>: here the initialisation check comes before the warning.\<close>

definition scrap_lost_scrap :: "'p platform \<Rightarrow> 'p \<Rightarrow> scrap_state \<Rightarrow> 'p outcome" where
  "scrap_lost_scrap pf p st =
     (case PYGAME_SCRAP_INIT_CHECK st of
        Some e \<Rightarrow> (Inl e, p, st)
      | None \<Rightarrow>
          if PyErr_WarnEx pf p ''pygame.scrap.lost deprecated since 2.2.0'' = - 1
          then (Inl (PyExc_DeprecationWarning ''pygame.scrap.lost deprecated since 2.2.0''),
                p, st)
          else if pygame_scrap_lost pf p \<noteq> 0 then (Inr (PyBool True), p, st)
          else (Inr (PyBool False), p, st))"

text \<open>
  \<^verbatim>\<open>_scrap_set_mode\<close>: the argument is converted straight into \<^verbatim>\<open>_currentmode\<close>, then
  checked, then replaced by \<^verbatim>\<open>SCRAP_CLIPBOARD\<close>.
\<close>

definition scrap_set_mode :: "'p platform \<Rightarrow> 'p \<Rightarrow> scrap_state \<Rightarrow> int \<Rightarrow> 'p outcome" where
  "scrap_set_mode pf p st arg =
     (case PYGAME_SCRAP_INIT_CHECK st of
        Some e \<Rightarrow> (Inl e, p, st)
      | None \<Rightarrow>
          if PyErr_WarnEx pf p ''pygame.scrap.set_mode deprecated since 2.2.0'' = - 1
          then (Inl (PyExc_DeprecationWarning ''pygame.scrap.set_mode deprecated since 2.2.0''),
                p, st)
          else
            (case PyArg_ParseTuple_i arg of
               None \<Rightarrow> (Inl PyExc_OverflowError, p, st)
             | Some v \<Rightarrow>
                 let st1 = st\<lparr>currentmode := v\<rparr>
                 in if currentmode st1 \<noteq> SCRAP_CLIPBOARD \<and> currentmode st1 \<noteq> SCRAP_SELECTION
                    then (Inl (PyExc_ValueError ''invalid clipboard mode''), p, st1)
                    else (Inr Py_None, p, st1\<lparr>currentmode := SCRAP_CLIPBOARD\<rparr>)))"

subsection \<open>A sample platform\<close>

text \<open>
  A platform to run the functions on: its state is the log of the calls that change
  the outside world. Every warning is only shown, the video system is up, the adapter
  succeeds, the process owns the clipboard, and the clipboard holds nothing.
\<close>

datatype call = Adapter_init | Adapter_put string bytes | Set_text string

definition sample_platform :: "call list platform" where
  "sample_platform =
     \<lparr>PyErr_WarnEx = (\<lambda>p msg. 0),
      VIDEO_INIT_CHECK = (\<lambda>p. None),
      adapter_init = (\<lambda>p. (True, p @ [Adapter_init])),
      pygame_scrap_lost = (\<lambda>p. 0),
      pygame_scrap_contains = (\<lambda>p type. 0),
      pygame_scrap_get = (\<lambda>p type. None),
      pygame_scrap_put = (\<lambda>p type scrap. (1, p @ [Adapter_put type scrap])),
      pygame_scrap_get_types = (\<lambda>p. None),
      SDL_HasClipboardText = (\<lambda>p. False),
      SDL_GetClipboardText = (\<lambda>p. []),
      SDL_SetClipboardText = (\<lambda>p text. (0, p @ [Set_text text])),
      SDL_GetError = (\<lambda>p. ''platform failure''),
      PyUnicode_FromString = Some,
      dict_lookup_error = (\<lambda>p. False)\<rparr>"

text \<open>The module after one successful \<^verbatim>\<open>init\<close>.\<close>

definition ready_state :: scrap_state where
  "ready_state =
     \<lparr>scrapinitialized = 1, currentmode = 0, selectiondata = Some [], clipdata = Some []\<rparr>"

text \<open>
  The invariant that ties the flag to the dictionaries: an initialised module has both.
\<close>

definition scrap_inv :: "scrap_state \<Rightarrow> bool" where
  "scrap_inv st =
     (if scrapinitialized st = 0 then True
      else selectiondata st \<noteq> None \<and> clipdata st \<noteq> None)"

subsection \<open>More platforms and states to run the functions on\<close>

text \<open>The module after \<^verbatim>\<open>init\<close> and \<^verbatim>\<open>put("text/plain", b"hello")\<close>.\<close>

definition cached_state :: scrap_state where
  "cached_state =
     \<lparr>scrapinitialized = 1, currentmode = 0, selectiondata = Some [],
      clipdata = Some [(''text/plain'', ''hello'')]\<rparr>"

text \<open>The same with the mode variable holding 5, as a rejected \<^verbatim>\<open>set_mode(5)\<close> leaves it.\<close>

definition stale_mode_state :: scrap_state where
  "stale_mode_state =
     \<lparr>scrapinitialized = 1, currentmode = 5, selectiondata = Some [],
      clipdata = Some [(''text/plain'', ''hello'')]\<rparr>"

text \<open>
  A platform on which another application owns the clipboard and offers the text
  \<^verbatim>\<open>other\<close>.
\<close>

definition lost_platform :: "call list platform" where
  "lost_platform =
     sample_platform
       \<lparr>pygame_scrap_lost := (\<lambda>p. 1),
        pygame_scrap_get := (\<lambda>p type. if type = ''text/plain'' then Some ''other'' else None),
        SDL_HasClipboardText := (\<lambda>p. True),
        SDL_GetClipboardText := (\<lambda>p. ''other'')\<rparr>"

text \<open>A platform whose adapter refuses every \<^verbatim>\<open>put\<close>.\<close>

definition refusing_platform :: "call list platform" where
  "refusing_platform =
     sample_platform\<lparr>pygame_scrap_put := (\<lambda>p type scrap. (0, p @ [Adapter_put type scrap]))\<rparr>"

text \<open>
  A platform whose clipboard holds one byte that is not UTF-8, and whose decoder rejects
  every string with that byte.
\<close>

definition undecodable_platform :: "call list platform" where
  "undecodable_platform =
     sample_platform
       \<lparr>SDL_HasClipboardText := (\<lambda>p. True),
        SDL_GetClipboardText := (\<lambda>p. [CHR 0xFF]),
        PyUnicode_FromString := (\<lambda>s. if CHR 0xFF \<in> set s then None else Some s)\<rparr>"

text \<open>The type tag of three characters \<^verbatim>\<open>a\<close>, NUL, \<^verbatim>\<open>b\<close>.\<close>

definition nul_tag :: string where
  "nul_tag = [CHR ''a'', CHR 0x00, CHR ''b'']"

text \<open>A platform whose probe reports text although the read comes back empty.\<close>

definition failed_read_platform :: "call list platform" where
  "failed_read_platform = sample_platform\<lparr>SDL_HasClipboardText := (\<lambda>p. True)\<rparr>"

section \<open>Properties\<close>

subsection \<open>Dictionaries, the initialisation check, the invariant\<close>

lemma map_of_PyDict_SetItemString:
  "map_of (PyDict_SetItemString d key item) = (map_of d)(key \<mapsto> item)"
  by (induction d key item rule: PyDict_SetItemString.induct) auto

lemma parse_s_accepts:
  "CHR 0x00 \<notin> set T \<Longrightarrow> PyArg_ParseTuple_s T = Some T"
  by (simp add: PyArg_ParseTuple_s_def)

lemma parse_s_rejects:
  "CHR 0x00 \<in> set T \<Longrightarrow> PyArg_ParseTuple_s T = None"
  by (simp add: PyArg_ParseTuple_s_def)

lemma parse_s_result:
  assumes "PyArg_ParseTuple_s T = Some t"
  shows "t = T" and "CHR 0x00 \<notin> set T"
  using assms by (auto simp: PyArg_ParseTuple_s_def split: if_splits)

lemma init_check_passes:
  "pygame_scrap_initialized st \<noteq> 0 \<Longrightarrow> PYGAME_SCRAP_INIT_CHECK st = None"
  by (simp add: PYGAME_SCRAP_INIT_CHECK_def)

lemma init_check_fails:
  "pygame_scrap_initialized st = 0 \<Longrightarrow> PYGAME_SCRAP_INIT_CHECK st = Some NotInitializedError"
  by (simp add: PYGAME_SCRAP_INIT_CHECK_def)

text \<open>
  The sample states are states of real runs: \<^verbatim>\<open>init\<close> from the initial state, then
  \<^verbatim>\<open>put\<close>.
\<close>

lemma sample_states_reached:
  "scrap_init sample_platform [] initial_state = (Inr Py_None, [Adapter_init], ready_state)"
  "scrap_put_scrap sample_platform [Adapter_init] ready_state ''text/plain'' ''hello'' =
     (Inr Py_None, [Adapter_init, Adapter_put ''text/plain'' ''hello''], cached_state)"
  by (simp_all add: scrap_init_def scrap_put_scrap_def sample_platform_def initial_state_def
      ready_state_def cached_state_def pygame_scrap_init_def pygame_scrap_initialized_def
      PYGAME_SCRAP_INIT_CHECK_def PyArg_ParseTuple_s_def SCRAP_SELECTION_def)

text \<open>
  The module starts with the invariant, and every function keeps it: the flag is only
  set by \<^verbatim>\<open>init\<close>, after the dictionaries have been created. So an initialised module
  never meets a \<^verbatim>\<open>NULL\<close> dictionary.
\<close>

lemma scrap_inv_initial_state: "scrap_inv initial_state"
  by (simp add: scrap_inv_def initial_state_def)

lemma scrap_inv_init:
  assumes "scrap_inv st"
  shows "scrap_inv (snd (snd (scrap_init pf p st)))"
proof (cases "pygame_scrap_initialized st = 0")
  case True
  then show ?thesis
    by (auto simp: scrap_init_def pygame_scrap_init_def scrap_inv_def
        pygame_scrap_initialized_def Let_def split: option.splits prod.splits)
next
  case False
  with assms show ?thesis
    by (auto simp: scrap_init_def pygame_scrap_init_def scrap_inv_def
        pygame_scrap_initialized_def Let_def split: option.splits prod.splits)
qed

lemma scrap_inv_put_scrap:
  assumes "scrap_inv st"
  shows "scrap_inv (snd (snd (scrap_put_scrap pf p st T P)))"
  using assms
  by (auto simp: scrap_put_scrap_def scrap_inv_def split: option.splits prod.splits if_splits)

lemma scrap_inv_set_mode:
  assumes "scrap_inv st"
  shows "scrap_inv (snd (snd (scrap_set_mode pf p st arg)))"
  using assms
  by (auto simp: scrap_set_mode_def scrap_inv_def Let_def split: option.splits if_splits)

lemma other_functions_keep_state:
  "snd (snd (scrap_get_init pf p st)) = st"
  "snd (snd (scrap_get_types pf p st)) = st"
  "snd (snd (scrap_contains pf p st T)) = st"
  "snd (snd (scrap_get_scrap pf p st T)) = st"
  "snd (snd (scrap_lost_scrap pf p st)) = st"
  "snd (snd (scrap_get_text pf p st)) = st"
  "snd (snd (scrap_put_text pf p st text)) = st"
  "snd (snd (scrap_has_text pf p st)) = st"
  by (simp_all add: scrap_get_init_def scrap_get_types_def scrap_contains_def
      scrap_get_scrap_def scrap_lost_scrap_def scrap_get_text_def scrap_put_text_def
      scrap_has_text_def Let_def split: option.splits prod.splits sum.splits)

lemma initialized_has_dictionaries:
  assumes "scrap_inv st" and "pygame_scrap_initialized st \<noteq> 0"
  obtains sd cd where "selectiondata st = Some sd" and "clipdata st = Some cd"
  using assms by (auto simp: scrap_inv_def pygame_scrap_initialized_def)

subsection \<open>Which functions check for initialisation\<close>

text \<open>
  Five generic functions run the check. In \<^verbatim>\<open>get_types\<close>, \<^verbatim>\<open>get\<close> and \<^verbatim>\<open>put\<close> the
  deprecation warning comes first, so the check is reached when the warning is not
  turned into an exception; in \<^verbatim>\<open>lost\<close> and \<^verbatim>\<open>set_mode\<close> the check comes first.
\<close>

lemma generic_functions_need_init:
  assumes "pygame_scrap_initialized st = 0"
  shows "PyErr_WarnEx pf p ''pygame.scrap.get_types deprecated since 2.2.0'' \<noteq> - 1
           \<Longrightarrow> scrap_get_types pf p st = (Inl NotInitializedError, p, st)"
    and "PyErr_WarnEx pf p get_warning \<noteq> - 1
           \<Longrightarrow> scrap_get_scrap pf p st T = (Inl NotInitializedError, p, st)"
    and "PyErr_WarnEx pf p put_warning \<noteq> - 1
           \<Longrightarrow> scrap_put_scrap pf p st T P = (Inl NotInitializedError, p, st)"
    and "scrap_lost_scrap pf p st = (Inl NotInitializedError, p, st)"
    and "scrap_set_mode pf p st arg = (Inl NotInitializedError, p, st)"
  using assms
  by (simp_all add: scrap_get_types_def scrap_get_scrap_def scrap_put_scrap_def
      scrap_lost_scrap_def scrap_set_mode_def init_check_fails)

text \<open>The three text functions and \<^verbatim>\<open>contains\<close> never raise it.\<close>

lemma text_functions_need_no_init:
  "fst (scrap_get_text pf p st) \<noteq> Inl NotInitializedError"
  "fst (scrap_put_text pf p st text) \<noteq> Inl NotInitializedError"
  "fst (scrap_has_text pf p st) \<noteq> Inl NotInitializedError"
  by (simp_all add: scrap_get_text_def scrap_put_text_def scrap_has_text_def Let_def
      embedded_null_def split: option.splits prod.splits)

lemma contains_never_not_initialized:
  "fst (scrap_contains pf p st type) \<noteq> Inl NotInitializedError"
  by (simp add: scrap_contains_def embedded_null_def split: option.splits)

text \<open>
  C4. The claim: each of \<^verbatim>\<open>get_types\<close>, \<^verbatim>\<open>contains\<close>, \<^verbatim>\<open>get\<close>, \<^verbatim>\<open>put\<close>, \<^verbatim>\<open>lost\<close> and
  \<^verbatim>\<open>set_mode\<close> fails with "not initialized" before \<^verbatim>\<open>init\<close>, and the three text
  functions do not. The code of \<^verbatim>\<open>_scrap_contains\<close> has no initialisation check: called
  on the module as it starts, before any \<^verbatim>\<open>init\<close>, it returns the adapter's answer
  (here \<^verbatim>\<open>False\<close>) and raises nothing.
\<close>

theorem contains_before_init_answers:
  "scrap_contains sample_platform [] initial_state ''text/plain'' =
     (Inr (PyBool False), [], initial_state)
   \<and> pygame_scrap_initialized initial_state = 0"
  by (simp add: scrap_contains_def sample_platform_def initial_state_def
      pygame_scrap_initialized_def PyArg_ParseTuple_s_def)

subsection \<open>The mode\<close>

lemma set_mode_invalid_in_range:
  assumes "pygame_scrap_initialized st \<noteq> 0"
      and "PyErr_WarnEx pf p ''pygame.scrap.set_mode deprecated since 2.2.0'' \<noteq> - 1"
      and "- (2 ^ 31) \<le> arg" and "arg < 2 ^ 31"
      and "arg \<noteq> SCRAP_CLIPBOARD" and "arg \<noteq> SCRAP_SELECTION"
  shows "scrap_set_mode pf p st arg =
           (Inl (PyExc_ValueError ''invalid clipboard mode''), p, st\<lparr>currentmode := arg\<rparr>)"
  using assms
  by (simp add: scrap_set_mode_def init_check_passes PyArg_ParseTuple_i_def)

lemma set_mode_out_of_range:
  assumes "pygame_scrap_initialized st \<noteq> 0"
      and "PyErr_WarnEx pf p ''pygame.scrap.set_mode deprecated since 2.2.0'' \<noteq> - 1"
      and "arg < - (2 ^ 31) \<or> 2 ^ 31 \<le> arg"
  shows "scrap_set_mode pf p st arg = (Inl PyExc_OverflowError, p, st)"
  using assms
  by (auto simp: scrap_set_mode_def init_check_passes PyArg_ParseTuple_i_def)

text \<open>
  C1. The claim: \<^verbatim>\<open>set_mode(m)\<close> with \<open>m\<close> neither Clipboard nor Selection raises the
  invalid-mode error and leaves the stored mode as it was. The code raises the error,
  but the argument has already been converted into \<^verbatim>\<open>_currentmode\<close>: on an initialised
  module whose mode is Clipboard, \<^verbatim>\<open>set_mode(5)\<close> raises ValueError and leaves 5 in the
  mode variable.
\<close>

theorem set_mode_invalid_argument_is_stored:
  "scrap_set_mode sample_platform [] ready_state 5 =
     (Inl (PyExc_ValueError ''invalid clipboard mode''), [], ready_state\<lparr>currentmode := 5\<rparr>)
   \<and> currentmode ready_state = SCRAP_CLIPBOARD
   \<and> currentmode (ready_state\<lparr>currentmode := 5\<rparr>) \<noteq> currentmode ready_state"
  by (simp add: scrap_set_mode_def sample_platform_def ready_state_def
      PYGAME_SCRAP_INIT_CHECK_def pygame_scrap_initialized_def PyArg_ParseTuple_i_def
      SCRAP_CLIPBOARD_def SCRAP_SELECTION_def)

text \<open>
  C3, as the code has it: the claim says that a platform with a true selection buffer
  stores Selection on \<^verbatim>\<open>set_mode(Selection)\<close> and only the others force Clipboard. The
  code has no platform-specific path: the assignment of \<^verbatim>\<open>SCRAP_CLIPBOARD\<close> is
  unconditional. On every platform, \<^verbatim>\<open>set_mode(Selection)\<close> on an initialised module
  (the warning not turned into an exception) returns None and stores Clipboard.
\<close>

theorem set_mode_selection_stores_clipboard:
  assumes "pygame_scrap_initialized st \<noteq> 0"
      and "PyErr_WarnEx pf p ''pygame.scrap.set_mode deprecated since 2.2.0'' \<noteq> - 1"
  shows "scrap_set_mode pf p st SCRAP_SELECTION =
           (Inr Py_None, p, st\<lparr>currentmode := SCRAP_CLIPBOARD\<rparr>)"
proof -
  have "PYGAME_SCRAP_INIT_CHECK st = None"
    using assms(1) by (rule init_check_passes)
  moreover have "PyArg_ParseTuple_i SCRAP_SELECTION = Some SCRAP_SELECTION"
    by (simp add: PyArg_ParseTuple_i_def SCRAP_SELECTION_def)
  ultimately show ?thesis
    using assms(2) by (simp add: scrap_set_mode_def)
qed

text \<open>The theorem on the sample platform.\<close>

theorem set_mode_selection_stores_clipboard_witness:
  "pygame_scrap_initialized cached_state \<noteq> 0
   \<and> scrap_set_mode sample_platform [] cached_state SCRAP_SELECTION =
       (Inr Py_None, [], cached_state\<lparr>currentmode := SCRAP_CLIPBOARD\<rparr>)"
  using set_mode_selection_stores_clipboard [of cached_state sample_platform "[]"]
  by (simp add: sample_platform_def cached_state_def pygame_scrap_initialized_def)

text \<open>
  A successful \<^verbatim>\<open>set_mode(Selection)\<close> after which the stored mode is not Selection.
\<close>

theorem set_mode_selection_counterexample:
  "scrap_set_mode sample_platform [] ready_state SCRAP_SELECTION = (Inr Py_None, [], ready_state)
   \<and> currentmode ready_state \<noteq> SCRAP_SELECTION"
  by (simp add: scrap_set_mode_def sample_platform_def ready_state_def
      PYGAME_SCRAP_INIT_CHECK_def pygame_scrap_initialized_def PyArg_ParseTuple_i_def
      SCRAP_CLIPBOARD_def SCRAP_SELECTION_def)

text \<open>
  What the mode decides. When the mode is not Selection, nothing that \<^verbatim>\<open>get\<close> and
  \<^verbatim>\<open>get_types\<close> return depends on the selection dictionary, and \<^verbatim>\<open>put\<close> does not
  write it.
\<close>

lemma set_mode_success_mode:
  assumes "scrap_set_mode pf p st arg = (Inr v, p', st')"
  shows "currentmode st' = SCRAP_CLIPBOARD"
  using assms
  by (auto simp: scrap_set_mode_def Let_def split: option.splits if_splits)

lemma set_mode_never_stores_selection:
  assumes "currentmode st \<noteq> SCRAP_SELECTION"
  shows "currentmode (snd (snd (scrap_set_mode pf p st arg))) \<noteq> SCRAP_SELECTION"
  using assms
  by (simp add: scrap_set_mode_def Let_def SCRAP_CLIPBOARD_def SCRAP_SELECTION_def
      split: option.splits)

lemma get_scrap_ignores_selection:
  assumes "currentmode st \<noteq> SCRAP_SELECTION"
  shows "fst (scrap_get_scrap pf q (st\<lparr>selectiondata := sd\<rparr>) T) = fst (scrap_get_scrap pf q st T)"
  using assms
  by (simp add: scrap_get_scrap_def PYGAME_SCRAP_INIT_CHECK_def pygame_scrap_initialized_def
      split: option.splits sum.splits)

lemma get_types_ignores_selection:
  assumes "currentmode st \<noteq> SCRAP_SELECTION"
  shows "fst (scrap_get_types pf q (st\<lparr>selectiondata := sd\<rparr>)) = fst (scrap_get_types pf q st)"
  using assms
  by (simp add: scrap_get_types_def PYGAME_SCRAP_INIT_CHECK_def pygame_scrap_initialized_def
      split: option.splits)

lemma put_scrap_keeps_selection:
  assumes "currentmode st \<noteq> SCRAP_SELECTION"
  shows "selectiondata (snd (snd (scrap_put_scrap pf q st T P))) = selectiondata st"
  using assms
  by (simp add: scrap_put_scrap_def split: option.splits prod.splits)

text \<open>
  C9. After every successful \<^verbatim>\<open>set_mode\<close> call, whatever the platform and the
  argument, the stored mode is Clipboard. So for the state it leaves, and any later state
  \<open>q\<close> of the platform: what \<^verbatim>\<open>get\<close> and \<^verbatim>\<open>get_types\<close> answer is the same whatever
  the selection dictionary holds, and \<^verbatim>\<open>put\<close> leaves the selection dictionary as it
  is. The selection cache is never the one addressed.
\<close>

theorem set_mode_success_forces_clipboard:
  assumes "scrap_set_mode pf p st arg = (Inr v, p', st')"
  shows "currentmode st' = SCRAP_CLIPBOARD
       \<and> currentmode st' \<noteq> SCRAP_SELECTION
       \<and> fst (scrap_get_scrap pf q (st'\<lparr>selectiondata := sd\<rparr>) T) = fst (scrap_get_scrap pf q st' T)
       \<and> fst (scrap_get_types pf q (st'\<lparr>selectiondata := sd\<rparr>)) = fst (scrap_get_types pf q st')
       \<and> selectiondata (snd (snd (scrap_put_scrap pf q st' T P))) = selectiondata st'"
proof -
  have m: "currentmode st' = SCRAP_CLIPBOARD"
    using assms by (rule set_mode_success_mode)
  then have n: "currentmode st' \<noteq> SCRAP_SELECTION"
    by (simp add: SCRAP_CLIPBOARD_def SCRAP_SELECTION_def)
  show ?thesis
    by (intro conjI m n get_scrap_ignores_selection [OF n] get_types_ignores_selection [OF n]
        put_scrap_keeps_selection [OF n])
qed

text \<open>The theorem at \<^verbatim>\<open>set_mode(1)\<close> on the sample platform.\<close>

theorem set_mode_success_forces_clipboard_witness:
  "scrap_set_mode sample_platform [] cached_state 1 = (Inr Py_None, [], cached_state)
   \<and> currentmode cached_state = SCRAP_CLIPBOARD
   \<and> selectiondata (snd (snd (scrap_put_scrap sample_platform [] cached_state ''a'' ''b''))) =
       selectiondata cached_state"
proof -
  have s: "scrap_set_mode sample_platform [] cached_state 1 = (Inr Py_None, [], cached_state)"
    by (simp add: scrap_set_mode_def sample_platform_def cached_state_def
        PYGAME_SCRAP_INIT_CHECK_def pygame_scrap_initialized_def PyArg_ParseTuple_i_def
        SCRAP_CLIPBOARD_def SCRAP_SELECTION_def)
  show ?thesis
    using s set_mode_success_forces_clipboard [OF s, of "[]" "None" "''a''" "''b''"]
    by simp
qed

text \<open>
  C10. For every stored mode other than Selection, an invalid integer included, on an
  initialised module and for a type tag that the argument conversion accepts:
  \<^verbatim>\<open>get\<close> (clipboard owned, key built, lookup without fault) returns what the clipboard
  dictionary holds for the type, or None; a \<^verbatim>\<open>put\<close> that the adapter accepts sets the
  value in the clipboard dictionary; \<^verbatim>\<open>get_types\<close> (clipboard owned) returns the keys
  of the clipboard dictionary. None of them fails on the mode.
\<close>

theorem non_selection_mode_uses_clipboard_cache:
  assumes "currentmode st \<noteq> SCRAP_SELECTION"
      and "pygame_scrap_initialized st \<noteq> 0"
      and "clipdata st = Some cd"
  shows "(PyErr_WarnEx pf p get_warning \<noteq> - 1 \<and> CHR 0x00 \<notin> set T
            \<and> pygame_scrap_lost pf p = 0
            \<and> PyUnicode_FromString pf T = Some key \<and> \<not> dict_lookup_error pf p
          \<longrightarrow> scrap_get_scrap pf p st T =
                ((case map_of cd key of None \<Rightarrow> Inr Py_None | Some val \<Rightarrow> Inr (PyBytes val)),
                 p, st))
       \<and> (PyErr_WarnEx pf p put_warning \<noteq> - 1 \<and> CHR 0x00 \<notin> set T
            \<and> pygame_scrap_put pf p T P = (r, p') \<and> r \<noteq> 0
          \<longrightarrow> scrap_put_scrap pf p st T P =
                (Inr Py_None, p', st\<lparr>clipdata := Some (PyDict_SetItemString cd T P)\<rparr>))
       \<and> (PyErr_WarnEx pf p ''pygame.scrap.get_types deprecated since 2.2.0'' \<noteq> - 1
            \<and> pygame_scrap_lost pf p = 0
          \<longrightarrow> scrap_get_types pf p st = (Inr (PyList (map fst cd)), p, st))"
proof -
  have check: "PYGAME_SCRAP_INIT_CHECK st = None"
    using assms(2) by (rule init_check_passes)
  have get: "scrap_get_scrap pf p st T =
      ((case map_of cd key of None \<Rightarrow> Inr Py_None | Some val \<Rightarrow> Inr (PyBytes val)), p, st)"
    if "PyErr_WarnEx pf p get_warning \<noteq> - 1" "CHR 0x00 \<notin> set T"
      "pygame_scrap_lost pf p = 0" "PyUnicode_FromString pf T = Some key"
      "\<not> dict_lookup_error pf p"
    using that assms(1,3) check
    by (simp add: scrap_get_scrap_def parse_s_accepts PyDict_GetItemWithError_def
        split: option.splits)
  have put: "scrap_put_scrap pf p st T P =
      (Inr Py_None, p', st\<lparr>clipdata := Some (PyDict_SetItemString cd T P)\<rparr>)"
    if "PyErr_WarnEx pf p put_warning \<noteq> - 1" "CHR 0x00 \<notin> set T"
      "pygame_scrap_put pf p T P = (r, p')" "r \<noteq> 0"
    using that assms(1,3) check
    by (simp add: scrap_put_scrap_def parse_s_accepts)
  have types: "scrap_get_types pf p st = (Inr (PyList (map fst cd)), p, st)"
    if "PyErr_WarnEx pf p ''pygame.scrap.get_types deprecated since 2.2.0'' \<noteq> - 1"
      "pygame_scrap_lost pf p = 0"
    using that assms(1,3) check
    by (simp add: scrap_get_types_def PyDict_Keys_def)
  from get put types show ?thesis by blast
qed

text \<open>The theorem on the module whose mode variable holds 5.\<close>

theorem non_selection_mode_uses_clipboard_cache_witness:
  "currentmode stale_mode_state \<noteq> SCRAP_SELECTION
   \<and> CHR 0x00 \<notin> set ''text/plain''
   \<and> scrap_get_scrap sample_platform [] stale_mode_state ''text/plain'' =
       (Inr (PyBytes ''hello''), [], stale_mode_state)
   \<and> scrap_put_scrap sample_platform [] stale_mode_state ''text/plain'' ''bye'' =
       (Inr Py_None, [Adapter_put ''text/plain'' ''bye''],
        stale_mode_state\<lparr>clipdata := Some [(''text/plain'', ''bye'')]\<rparr>)
   \<and> scrap_get_types sample_platform [] stale_mode_state =
       (Inr (PyList [''text/plain'']), [], stale_mode_state)"
  using non_selection_mode_uses_clipboard_cache
    [of stale_mode_state "[(''text/plain'', ''hello'')]" sample_platform "[]" "''text/plain''"
      "''text/plain''" "''bye''" 1 "[Adapter_put ''text/plain'' ''bye'']"]
  by (simp add: sample_platform_def stale_mode_state_def pygame_scrap_initialized_def
      get_warning_def put_warning_def SCRAP_SELECTION_def)

subsection \<open>Initialising twice\<close>

text \<open>
  C2, as the code has it: the claim says that \<^verbatim>\<open>init\<close> on an initialised module does
  no adapter-level initialisation and empties both caches. The code creates the
  dictionaries only under \<^verbatim>\<open>if (!pygame_scrap_initialized())\<close> and calls
  \<^verbatim>\<open>pygame_scrap_init\<close> in either case. So on an initialised module (video system up,
  warning not turned into an exception) \<^verbatim>\<open>init\<close> calls the adapter's init again,
  raises exactly when that call fails, and leaves both dictionaries as they were.
\<close>

theorem init_when_initialized_calls_adapter_keeps_cache:
  assumes "pygame_scrap_initialized st \<noteq> 0"
      and "VIDEO_INIT_CHECK pf p = None"
      and "PyErr_WarnEx pf p ''pygame.scrap.init deprecated since 2.2.0'' \<noteq> - 1"
      and "adapter_init pf p = (ok, p')"
  shows "scrap_init pf p st =
           (if ok then (Inr Py_None, p', st\<lparr>scrapinitialized := 1\<rparr>)
            else (Inl (pgExc_SDLError (SDL_GetError pf p')), p', st))
         \<and> clipdata (snd (snd (scrap_init pf p st))) = clipdata st
         \<and> selectiondata (snd (snd (scrap_init pf p st))) = selectiondata st"
proof -
  have run: "scrap_init pf p st =
      (case pygame_scrap_init pf p st of
         (r, p', st2) \<Rightarrow>
           if r = 0 then (Inl (pgExc_SDLError (SDL_GetError pf p')), p', st2)
           else (Inr Py_None, p', st2))"
    using assms(1-3) by (simp add: scrap_init_def)
  show ?thesis
  proof (cases ok)
    case True
    with assms(4) have "pygame_scrap_init pf p st = (1, p', st\<lparr>scrapinitialized := 1\<rparr>)"
      by (simp add: pygame_scrap_init_def)
    with run True show ?thesis by simp
  next
    case False
    with assms(4) have "pygame_scrap_init pf p st = (0, p', st)"
      by (simp add: pygame_scrap_init_def)
    with run False show ?thesis by simp
  qed
qed

text \<open>The theorem on the sample platform, with one entry in the clipboard cache.\<close>

theorem init_when_initialized_witness:
  "scrap_init sample_platform [Adapter_init] cached_state =
     (Inr Py_None, [Adapter_init, Adapter_init], cached_state\<lparr>scrapinitialized := 1\<rparr>)
   \<and> clipdata (snd (snd (scrap_init sample_platform [Adapter_init] cached_state))) =
       Some [(''text/plain'', ''hello'')]"
  using init_when_initialized_calls_adapter_keeps_cache
    [of cached_state sample_platform "[Adapter_init]" True "[Adapter_init, Adapter_init]"]
  by (simp add: sample_platform_def cached_state_def pygame_scrap_initialized_def)

text \<open>
  A second \<^verbatim>\<open>init\<close>, after \<^verbatim>\<open>init\<close> and \<^verbatim>\<open>put("text/plain", b"hello")\<close>: the adapter's
  init runs a second time and the cached entry is still there.
\<close>

theorem init_again_keeps_cache_counterexample:
  "scrap_init sample_platform [Adapter_init, Adapter_put ''text/plain'' ''hello''] cached_state =
     (Inr Py_None, [Adapter_init, Adapter_put ''text/plain'' ''hello'', Adapter_init],
      cached_state)
   \<and> clipdata cached_state = Some [(''text/plain'', ''hello'')]
   \<and> pygame_scrap_initialized cached_state \<noteq> 0"
  by (simp add: scrap_init_def sample_platform_def cached_state_def pygame_scrap_init_def
      pygame_scrap_initialized_def)

subsection \<open>Get and put\<close>

text \<open>
  A type tag with an embedded NUL character is turned down by the argument conversion,
  after the initialisation check and before anything else happens: neither the cache
  nor the adapter is reached.
\<close>

lemma get_scrap_rejects_nul:
  assumes "pygame_scrap_initialized st \<noteq> 0"
      and "PyErr_WarnEx pf p get_warning \<noteq> - 1"
      and "CHR 0x00 \<in> set T"
  shows "scrap_get_scrap pf p st T = (Inl embedded_null, p, st)"
  using assms by (simp add: scrap_get_scrap_def init_check_passes parse_s_rejects)

lemma put_scrap_rejects_nul:
  assumes "pygame_scrap_initialized st \<noteq> 0"
      and "PyErr_WarnEx pf p put_warning \<noteq> - 1"
      and "CHR 0x00 \<in> set T"
  shows "scrap_put_scrap pf p st T P = (Inl embedded_null, p, st)"
  using assms by (simp add: scrap_put_scrap_def init_check_passes parse_s_rejects)

text \<open>
  C5, as the code has it: the claim speaks of every type tag, and a tag with an
  embedded NUL character raises ValueError in both branches. For every type tag \<open>T\<close>
  without an embedded NUL character, on an initialised module (the warning not turned
  into an exception): while the clipboard is owned, \<^verbatim>\<open>get(T)\<close> looks the key up in the
  dictionary of the current mode and returns the cached bytes, or None when the key is
  not there, and a fault of the lookup is raised as SystemError, which is not None;
  when the clipboard is lost, \<^verbatim>\<open>get(T)\<close> returns what the adapter has for \<open>T\<close>, or
  None when it has nothing. A missing type raises nothing in either branch.
\<close>

theorem get_scrap_serves_cache_or_adapter:
  assumes "pygame_scrap_initialized st \<noteq> 0"
      and "PyErr_WarnEx pf p get_warning \<noteq> - 1"
      and "CHR 0x00 \<notin> set T"
  shows "(pygame_scrap_lost pf p = 0 \<and> selectiondata st = Some sd \<and> clipdata st = Some cd
            \<and> PyUnicode_FromString pf T = Some key \<and> \<not> dict_lookup_error pf p
          \<longrightarrow> scrap_get_scrap pf p st T =
                ((case map_of (if currentmode st = SCRAP_SELECTION then sd else cd) key of
                    None \<Rightarrow> Inr Py_None
                  | Some val \<Rightarrow> Inr (PyBytes val)), p, st))
       \<and> (pygame_scrap_lost pf p = 0 \<and> selectiondata st = Some sd \<and> clipdata st = Some cd
            \<and> PyUnicode_FromString pf T = Some key \<and> dict_lookup_error pf p
          \<longrightarrow> scrap_get_scrap pf p st T =
                (Inl (PyExc_SystemError (''pygame.scrap internal error (key='' @ T @ '')'')),
                 p, st))
       \<and> (pygame_scrap_lost pf p \<noteq> 0
          \<longrightarrow> scrap_get_scrap pf p st T =
                ((case pygame_scrap_get pf p T of
                    None \<Rightarrow> Inr Py_None
                  | Some scrap \<Rightarrow> Inr (PyBytes scrap)), p, st))"
proof -
  have run: "scrap_get_scrap pf p st T =
      (if pygame_scrap_lost pf p = 0 then
         (case PyUnicode_FromString pf T of
            None \<Rightarrow>
              (Inl (PyExc_ValueError (''invalid scrap data type identifier ('' @ T @ '')'')),
               p, st)
          | Some key \<Rightarrow>
              (case (if currentmode st = SCRAP_SELECTION then selectiondata st
                     else clipdata st) of
                 None \<Rightarrow> (Inl Segfault, p, st)
               | Some d \<Rightarrow>
                   (case PyDict_GetItemWithError pf p d key of
                      Inl _ \<Rightarrow>
                        (Inl (PyExc_SystemError
                                (''pygame.scrap internal error (key='' @ T @ '')'')), p, st)
                    | Inr None \<Rightarrow> (Inr Py_None, p, st)
                    | Inr (Some val) \<Rightarrow> (Inr (PyBytes val), p, st))))
       else
         (case pygame_scrap_get pf p T of
            None \<Rightarrow> (Inr Py_None, p, st)
          | Some scrap \<Rightarrow> (Inr (PyBytes scrap), p, st)))"
    using assms
    by (simp add: scrap_get_scrap_def init_check_passes parse_s_accepts)
  show ?thesis
    unfolding run
    by (auto simp: PyDict_GetItemWithError_def split: option.splits)
qed

text \<open>
  The theorem at a cached type and at a missing type, with the clipboard owned and with
  the clipboard lost.
\<close>

theorem get_scrap_serves_cache_or_adapter_witness:
  "CHR 0x00 \<notin> set ''text/plain''
   \<and> scrap_get_scrap sample_platform [] cached_state ''text/plain'' =
     (Inr (PyBytes ''hello''), [], cached_state)
   \<and> scrap_get_scrap sample_platform [] cached_state ''image/png'' =
     (Inr Py_None, [], cached_state)
   \<and> scrap_get_scrap lost_platform [] cached_state ''text/plain'' =
     (Inr (PyBytes ''other''), [], cached_state)
   \<and> scrap_get_scrap lost_platform [] cached_state ''image/png'' =
     (Inr Py_None, [], cached_state)"
  using
    get_scrap_serves_cache_or_adapter
      [of cached_state sample_platform "[]" "''text/plain''" "[]"
        "[(''text/plain'', ''hello'')]" "''text/plain''"]
    get_scrap_serves_cache_or_adapter
      [of cached_state sample_platform "[]" "''image/png''" "[]"
        "[(''text/plain'', ''hello'')]" "''image/png''"]
    get_scrap_serves_cache_or_adapter
      [of cached_state lost_platform "[]" "''text/plain''" "[]" "[]" "''text/plain''"]
    get_scrap_serves_cache_or_adapter
      [of cached_state lost_platform "[]" "''image/png''" "[]" "[]" "''image/png''"]
  by (simp add: sample_platform_def lost_platform_def cached_state_def
      pygame_scrap_initialized_def get_warning_def SCRAP_SELECTION_def)

text \<open>
  \<^verbatim>\<open>get\<close> of the tag \<open>nul_tag\<close> on an initialised module: ValueError, with the clipboard
  owned and with the clipboard lost; neither a value nor None.
\<close>

theorem get_scrap_nul_tag_counterexample:
  "scrap_get_scrap sample_platform [] cached_state nul_tag =
     (Inl (PyExc_ValueError ''embedded null character''), [], cached_state)
   \<and> scrap_get_scrap lost_platform [] cached_state nul_tag =
     (Inl (PyExc_ValueError ''embedded null character''), [], cached_state)
   \<and> pygame_scrap_initialized cached_state \<noteq> 0"
  by (simp add: scrap_get_scrap_def sample_platform_def lost_platform_def cached_state_def
      nul_tag_def embedded_null_def PyArg_ParseTuple_s_def PYGAME_SCRAP_INIT_CHECK_def
      pygame_scrap_initialized_def get_warning_def)

text \<open>
  C6, as the code has it: the claim speaks of every type tag, and for a tag with an
  embedded NUL character \<^verbatim>\<open>put\<close> raises ValueError without calling the adapter. For
  every type tag \<open>T\<close> without an embedded NUL character and every payload \<open>P\<close>, on an
  initialised module (the warning not turned into an exception): \<^verbatim>\<open>put(T, P)\<close> calls
  the adapter's put, so the platform afterwards is the one that call leaves. When the
  adapter reports failure, \<^verbatim>\<open>put\<close> raises the clipboard-write error and the module
  variables, both dictionaries with them, are unchanged. When it reports success,
  \<^verbatim>\<open>put\<close> returns None and the dictionary of the current mode, and nothing else, is
  updated so that \<open>T\<close> maps to \<open>P\<close> and every other key maps to what it did.
\<close>

theorem put_scrap_writes_through_then_caches:
  assumes "pygame_scrap_initialized st \<noteq> 0"
      and "PyErr_WarnEx pf p put_warning \<noteq> - 1"
      and "selectiondata st = Some sd" and "clipdata st = Some cd"
      and "pygame_scrap_put pf p T P = (r, p')"
      and "CHR 0x00 \<notin> set T"
  shows "fst (snd (scrap_put_scrap pf p st T P)) = p'
       \<and> (r = 0 \<longrightarrow>
            scrap_put_scrap pf p st T P =
              (Inl (pgExc_SDLError ''content could not be placed in clipboard.''), p', st))
       \<and> (r \<noteq> 0 \<and> currentmode st = SCRAP_SELECTION \<longrightarrow>
            scrap_put_scrap pf p st T P =
              (Inr Py_None, p', st\<lparr>selectiondata := Some (PyDict_SetItemString sd T P)\<rparr>)
            \<and> map_of (PyDict_SetItemString sd T P) = (map_of sd)(T \<mapsto> P))
       \<and> (r \<noteq> 0 \<and> currentmode st \<noteq> SCRAP_SELECTION \<longrightarrow>
            scrap_put_scrap pf p st T P =
              (Inr Py_None, p', st\<lparr>clipdata := Some (PyDict_SetItemString cd T P)\<rparr>)
            \<and> map_of (PyDict_SetItemString cd T P) = (map_of cd)(T \<mapsto> P))"
proof -
  have check: "PYGAME_SCRAP_INIT_CHECK st = None"
    using assms(1) by (rule init_check_passes)
  have parse: "PyArg_ParseTuple_s T = Some T"
    using assms(6) by (rule parse_s_accepts)
  show ?thesis
  proof (cases "r = 0")
    case True
    with assms check parse show ?thesis
      by (simp add: scrap_put_scrap_def)
  next
    case False
    with assms check parse show ?thesis
      by (simp add: scrap_put_scrap_def map_of_PyDict_SetItemString)
  qed
qed

text \<open>The theorem with an adapter that accepts and with one that refuses.\<close>

theorem put_scrap_writes_through_then_caches_witness:
  "CHR 0x00 \<notin> set ''image/png''
   \<and> scrap_put_scrap sample_platform [] cached_state ''image/png'' ''data'' =
     (Inr Py_None, [Adapter_put ''image/png'' ''data''],
      cached_state\<lparr>clipdata := Some [(''text/plain'', ''hello''), (''image/png'', ''data'')]\<rparr>)
   \<and> scrap_put_scrap refusing_platform [] cached_state ''image/png'' ''data'' =
     (Inl (pgExc_SDLError ''content could not be placed in clipboard.''),
      [Adapter_put ''image/png'' ''data''], cached_state)"
  using
    put_scrap_writes_through_then_caches
      [of cached_state sample_platform "[]" "[]" "[(''text/plain'', ''hello'')]"
        "''image/png''" "''data''" 1 "[Adapter_put ''image/png'' ''data'']"]
    put_scrap_writes_through_then_caches
      [of cached_state refusing_platform "[]" "[]" "[(''text/plain'', ''hello'')]"
        "''image/png''" "''data''" 0 "[Adapter_put ''image/png'' ''data'']"]
  by (simp add: sample_platform_def refusing_platform_def cached_state_def
      pygame_scrap_initialized_def put_warning_def SCRAP_SELECTION_def)

text \<open>
  \<^verbatim>\<open>put\<close> of the tag \<open>nul_tag\<close> on an initialised module, with an adapter that would
  accept it: ValueError, the adapter is not called (the log of the platform stays
  empty), nothing is recorded.
\<close>

theorem put_scrap_nul_tag_counterexample:
  "scrap_put_scrap sample_platform [] cached_state nul_tag ''x'' =
     (Inl (PyExc_ValueError ''embedded null character''), [], cached_state)
   \<and> pygame_scrap_put sample_platform [] nul_tag ''x'' = (1, [Adapter_put nul_tag ''x''])
   \<and> pygame_scrap_initialized cached_state \<noteq> 0"
  by (simp add: scrap_put_scrap_def sample_platform_def cached_state_def
      nul_tag_def embedded_null_def PyArg_ParseTuple_s_def PYGAME_SCRAP_INIT_CHECK_def
      pygame_scrap_initialized_def put_warning_def)

text \<open>
  C7. For every type tag \<open>T\<close> and payload \<open>P\<close>: when \<^verbatim>\<open>put(T, P)\<close> has succeeded and
  \<^verbatim>\<open>get(T)\<close> follows at once while the clipboard is still owned (its warning not turned
  into an exception, the key built, the lookup without fault), \<^verbatim>\<open>get(T)\<close> returns
  exactly \<open>P\<close>.
\<close>

theorem put_then_get_returns_payload:
  assumes put: "scrap_put_scrap pf p st T P = (Inr Py_None, p', st')"
      and owned: "pygame_scrap_lost pf p' = 0"
      and warn: "PyErr_WarnEx pf p' get_warning \<noteq> - 1"
      and key: "PyUnicode_FromString pf T = Some T"
      and lookup: "\<not> dict_lookup_error pf p'"
  shows "scrap_get_scrap pf p' st' T = (Inr (PyBytes P), p', st')"
proof -
  from put have init: "PYGAME_SCRAP_INIT_CHECK st = None"
    by (auto simp: scrap_put_scrap_def split: if_splits option.splits)
  from put init have parse: "PyArg_ParseTuple_s T = Some T"
    by (auto simp: scrap_put_scrap_def PyArg_ParseTuple_s_def split: if_splits)
  from put init parse have init': "PYGAME_SCRAP_INIT_CHECK st' = None"
    by (auto simp: scrap_put_scrap_def PYGAME_SCRAP_INIT_CHECK_def pygame_scrap_initialized_def
        split: if_splits option.splits prod.splits)
  show ?thesis
  proof (cases "currentmode st = SCRAP_SELECTION")
    case True
    with put init parse obtain d where
      "st' = st\<lparr>selectiondata := Some (PyDict_SetItemString d T P)\<rparr>"
      by (auto simp: scrap_put_scrap_def split: if_splits option.splits prod.splits)
    with True init' parse owned warn key lookup show ?thesis
      by (simp add: scrap_get_scrap_def PyDict_GetItemWithError_def
          map_of_PyDict_SetItemString)
  next
    case False
    with put init parse obtain d where
      "st' = st\<lparr>clipdata := Some (PyDict_SetItemString d T P)\<rparr>"
      by (auto simp: scrap_put_scrap_def split: if_splits option.splits prod.splits)
    with False init' parse owned warn key lookup show ?thesis
      by (simp add: scrap_get_scrap_def PyDict_GetItemWithError_def
          map_of_PyDict_SetItemString)
  qed
qed

text \<open>The theorem at \<^verbatim>\<open>put("text/plain", b"hello")\<close> on the sample platform.\<close>

theorem put_then_get_returns_payload_witness:
  "scrap_put_scrap sample_platform [Adapter_init] ready_state ''text/plain'' ''hello'' =
     (Inr Py_None, [Adapter_init, Adapter_put ''text/plain'' ''hello''], cached_state)
   \<and> scrap_get_scrap sample_platform [Adapter_init, Adapter_put ''text/plain'' ''hello'']
       cached_state ''text/plain'' =
     (Inr (PyBytes ''hello''), [Adapter_init, Adapter_put ''text/plain'' ''hello''],
      cached_state)"
proof -
  have put:
    "scrap_put_scrap sample_platform [Adapter_init] ready_state ''text/plain'' ''hello'' =
       (Inr Py_None, [Adapter_init, Adapter_put ''text/plain'' ''hello''], cached_state)"
    by (simp add: scrap_put_scrap_def sample_platform_def ready_state_def cached_state_def
        PYGAME_SCRAP_INIT_CHECK_def pygame_scrap_initialized_def PyArg_ParseTuple_s_def
        SCRAP_SELECTION_def)
  show ?thesis
    using put put_then_get_returns_payload [OF put]
    by (simp add: sample_platform_def)
qed

subsection \<open>Reading text\<close>

text \<open>
  C8, as the code has it: the claim says that outside the platform-error case
  \<^verbatim>\<open>get_text\<close> always returns the string read, without error; the code hands the text
  to \<^verbatim>\<open>PyUnicode_FromString\<close> and returns what that returns, so text that is not UTF-8
  raises the decoder's error. \<^verbatim>\<open>get_text\<close> raises the platform error exactly when the
  read is empty and the probe says that text is present. In every other case it
  returns the string read, without error, when the interpreter decodes it, and raises
  UnicodeDecodeError, which is not the platform error, when it does not. In particular
  an empty read with a probe that says no text gives the empty string (which decodes to
  itself): a clipboard with nothing in it and one that holds the empty string are not
  told apart.
\<close>

theorem get_text_raises_iff_probe_and_read_disagree:
  "((\<exists>msg. fst (scrap_get_text pf p st) = Inl (pgExc_SDLError msg))
      \<longleftrightarrow> (SDL_GetClipboardText pf p = [] \<and> SDL_HasClipboardText pf p))
   \<and> (\<not> (SDL_GetClipboardText pf p = [] \<and> SDL_HasClipboardText pf p)
        \<and> PyUnicode_FromString pf (SDL_GetClipboardText pf p) = Some u
      \<longrightarrow> scrap_get_text pf p st = (Inr (PyUnicode u), p, st))
   \<and> (\<not> (SDL_GetClipboardText pf p = [] \<and> SDL_HasClipboardText pf p)
        \<and> PyUnicode_FromString pf (SDL_GetClipboardText pf p) = None
      \<longrightarrow> scrap_get_text pf p st = (Inl PyExc_UnicodeDecodeError, p, st))
   \<and> (SDL_GetClipboardText pf p = [] \<and> \<not> SDL_HasClipboardText pf p
        \<and> PyUnicode_FromString pf [] = Some []
      \<longrightarrow> scrap_get_text pf p st = (Inr (PyUnicode []), p, st))"
  by (auto simp: scrap_get_text_def Let_def split: option.splits)

text \<open>
  The theorem on an empty clipboard, on a clipboard with text, on a platform whose
  probe and read disagree, and on a clipboard whose text does not decode.
\<close>

theorem get_text_raises_iff_probe_and_read_disagree_witness:
  "scrap_get_text sample_platform [] initial_state = (Inr (PyUnicode []), [], initial_state)
   \<and> scrap_get_text lost_platform [] initial_state =
       (Inr (PyUnicode ''other''), [], initial_state)
   \<and> (\<exists>msg. fst (scrap_get_text failed_read_platform [] initial_state) =
         Inl (pgExc_SDLError msg))
   \<and> scrap_get_text undecodable_platform [] initial_state =
       (Inl PyExc_UnicodeDecodeError, [], initial_state)"
  using
    get_text_raises_iff_probe_and_read_disagree [of sample_platform "[]" initial_state "[]"]
    get_text_raises_iff_probe_and_read_disagree [of lost_platform "[]" initial_state "''other''"]
    get_text_raises_iff_probe_and_read_disagree [of failed_read_platform "[]" initial_state "[]"]
    get_text_raises_iff_probe_and_read_disagree [of undecodable_platform "[]" initial_state "[]"]
  by (simp add: sample_platform_def lost_platform_def failed_read_platform_def
      undecodable_platform_def)

text \<open>
  \<^verbatim>\<open>get_text\<close> on a clipboard that holds the single byte \<^verbatim>\<open>0xFF\<close>: the read is not
  empty, so this is not the platform-error case, and yet the call raises.
\<close>

theorem get_text_undecodable_counterexample:
  "scrap_get_text undecodable_platform [] initial_state =
     (Inl PyExc_UnicodeDecodeError, [], initial_state)
   \<and> SDL_GetClipboardText undecodable_platform [] = [CHR 0xFF]
   \<and> SDL_GetClipboardText undecodable_platform [] \<noteq> []"
  by (simp add: scrap_get_text_def undecodable_platform_def sample_platform_def)

end
